theory Spec2Isabelle
  imports
    Main
    "HOL-Library.AList"
    "HOL-Library.Char_ord"
    "HOL-Library.List_Lexorder"
    "HOL-Library.Multiset"
begin

section \<open>Python string operations\<close>

text \<open>
  Strings are byte lists. \<open>str.lower()\<close> is modelled on ASCII: an upper-case letter
  \<open>A\<close>..\<open>Z\<close> gets bit 5 set, every other byte is unchanged.
\<close>

definition lower_char :: "char \<Rightarrow> char" where
  "lower_char c =
     (if CHR ''A'' \<le> c \<and> c \<le> CHR ''Z''
      then Char (digit0 c) (digit1 c) (digit2 c) (digit3 c) (digit4 c) True (digit6 c) (digit7 c)
      else c)"

definition lower :: "string \<Rightarrow> string" where
  "lower s = map lower_char s"

text \<open>\<open>s.replace(a, b)\<close> for single characters \<open>a\<close> and \<open>b\<close>.\<close>

definition replace_char :: "char \<Rightarrow> char \<Rightarrow> string \<Rightarrow> string" where
  "replace_char a b s = map (\<lambda>c. if c = a then b else c) s"

text \<open>\<open>s.replace(" ", "")\<close>.\<close>

definition remove_spaces :: "string \<Rightarrow> string" where
  "remove_spaces s = filter (\<lambda>c. c \<noteq> CHR '' '') s"

fun starts_with :: "string \<Rightarrow> string \<Rightarrow> bool" where
  "starts_with [] ys = True"
| "starts_with (x # xs) [] = False"
| "starts_with (x # xs) (y # ys) = (x = y \<and> starts_with xs ys)"

text \<open>\<open>xs in ys\<close> on strings: \<open>xs\<close> occurs in \<open>ys\<close> as a contiguous substring.\<close>

fun py_in :: "string \<Rightarrow> string \<Rightarrow> bool" where
  "py_in xs [] = (xs = [])"
| "py_in xs (y # ys) = (starts_with xs (y # ys) \<or> py_in xs ys)"

text \<open>A name matches the glob pattern \<open>*<ext>\<close> when it ends with \<open>ext\<close>.\<close>

definition ends_with :: "string \<Rightarrow> string \<Rightarrow> bool" where
  "ends_with ext name = starts_with (rev ext) (rev name)"

text \<open>Splitting at the last occurrence of a character (\<open>str.rfind\<close>, \<open>str.rsplit(c, 1)\<close>).\<close>

fun split_last :: "char \<Rightarrow> string \<Rightarrow> (string \<times> string) option" where
  "split_last c [] = None"
| "split_last c (x # xs) =
     (case split_last c xs of
        Some (pre, post) \<Rightarrow> Some (x # pre, post)
      | None \<Rightarrow> if x = c then Some ([], xs) else None)"

text \<open>\<open>s.rsplit("_", 1)[0]\<close>.\<close>

definition rsplit1_head :: "string \<Rightarrow> string" where
  "rsplit1_head s = (case split_last CHR ''_'' s of None \<Rightarrow> s | Some (pre, post) \<Rightarrow> pre)"

text \<open>
  \<open>Path.suffix\<close> and \<open>Path.stem\<close> of a file name: the name is cut at its last dot,
  unless that dot is the first or the last character.
\<close>

definition path_suffix :: "string \<Rightarrow> string" where
  "path_suffix name =
     (case split_last CHR ''.'' name of
        None \<Rightarrow> []
      | Some (pre, post) \<Rightarrow> if pre \<noteq> [] \<and> post \<noteq> [] then CHR ''.'' # post else [])"

definition stem :: "string \<Rightarrow> string" where
  "stem name =
     (case split_last CHR ''.'' name of
        None \<Rightarrow> name
      | Some (pre, post) \<Rightarrow> if pre \<noteq> [] \<and> post \<noteq> [] then pre else name)"

text \<open>The value of an optional field, or the default that \<open>dict.get\<close> is given.\<close>

definition get_or :: "'a \<Rightarrow> 'a option \<Rightarrow> 'a" where
  "get_or d x = (case x of None \<Rightarrow> d | Some v \<Rightarrow> v)"

text \<open>
  A Python \<open>dict\<close> keeps insertion order, and assigning to a key that is present keeps
  its position: an association list with \<open>AList.update\<close>. \<open>first_item P d\<close> is the
  loop \<open>for k, v in d.items(): if P k: found = v; break\<close>.
\<close>

fun first_item :: "(string \<Rightarrow> bool) \<Rightarrow> (string \<times> 'v) list \<Rightarrow> 'v option" where
  "first_item P [] = None"
| "first_item P ((k, v) # kvs) = (if P k then Some v else first_item P kvs)"

section \<open>Shared data\<close>

datatype error =
    MkdirError
  | JsonError
  | UsageError
  | PathNotFound
  | NotADirectory
  | TypeError
  | AttributeError
  | CopyError string
  | WriteError string

text \<open>The process exit status: 1 after \<open>sys.exit(1)\<close> or an uncaught exception, else 0.\<close>

definition exit_status :: "error option \<Rightarrow> nat" where
  "exit_status e = (case e of None \<Rightarrow> 0 | Some x \<Rightarrow> 1)"

record manifest =
  manifest_source :: string
  manifest_count :: nat
  manifest_glosses :: "string list"
  manifest_missing :: "string list"

text \<open>A file of the output folder: raw bytes, or the JSON document of the manifest.\<close>

datatype file_content = Bytes string | Json manifest

type_synonym folder = "string \<rightharpoonup> file_content"

datatype tier = Exact | NoSpaces | Partial

text \<open>
  The output folder \<open>AvatarAssets\<close> as a run finds it: whether \<open>mkdir\<close> succeeds,
  which of its files can be written, and its content. The folder is disjoint from the
  dataset folders the scripts read.
\<close>

record output_env =
  can_mkdir :: bool
  can_write_asset :: "string \<Rightarrow> bool"
  avatar_assets :: folder

text \<open>The listing file: one line per gloss, sorted.\<close>

definition gloss_listing :: "string list \<Rightarrow> file_content" where
  "gloss_listing keys = Bytes (concat (map (\<lambda>gloss. gloss @ [CHR 0x0A]) (sort keys)))"

section \<open>import\_wlasl.py\<close>

text \<open>
  What \<open>json.load\<close> returns: any JSON value. An object is a \<open>dict\<close> (its keys are
  distinct, \<open>map_of\<close> looks one up). The script never reads the value of a number.
\<close>

datatype json =
    JNull
  | JBool bool
  | JNumber int
  | JString string
  | JArray "json list"
  | JObject "(string \<times> json) list"

text \<open>
  The items \<open>for x in v\<close> runs over, which are also what \<open>len(v)\<close> counts: the elements
  of a list, the characters of a string, the keys of a \<open>dict\<close>; anything else raises
  \<open>TypeError\<close>.
\<close>

definition py_items :: "json \<Rightarrow> error + json list" where
  "py_items v =
     (case v of
        JArray xs \<Rightarrow> Inr xs
      | JString s \<Rightarrow> Inr (map (\<lambda>c. JString [c]) s)
      | JObject kvs \<Rightarrow> Inr (map (\<lambda>kv. JString (fst kv)) kvs)
      | JNull \<Rightarrow> Inl TypeError
      | JBool b \<Rightarrow> Inl TypeError
      | JNumber n \<Rightarrow> Inl TypeError)"

text \<open>\<open>v.get(key, dflt)\<close>: only a \<open>dict\<close> has the method.\<close>

definition dict_get :: "json \<Rightarrow> string \<Rightarrow> json \<Rightarrow> error + json" where
  "dict_get v key dflt =
     (case v of
        JObject kvs \<Rightarrow> Inr (case map_of kvs key of None \<Rightarrow> dflt | Some x \<Rightarrow> x)
      | JNull \<Rightarrow> Inl AttributeError
      | JBool b \<Rightarrow> Inl AttributeError
      | JNumber n \<Rightarrow> Inl AttributeError
      | JString s \<Rightarrow> Inl AttributeError
      | JArray xs \<Rightarrow> Inl AttributeError)"

text \<open>\<open>v.lower()\<close>: only a string has the method.\<close>

definition str_lower :: "json \<Rightarrow> error + string" where
  "str_lower v =
     (case v of
        JString s \<Rightarrow> Inr (lower s)
      | JNull \<Rightarrow> Inl AttributeError
      | JBool b \<Rightarrow> Inl AttributeError
      | JNumber n \<Rightarrow> Inl AttributeError
      | JArray xs \<Rightarrow> Inl AttributeError
      | JObject kvs \<Rightarrow> Inl AttributeError)"

text \<open>
  \<open>video_id in available_videos\<close>, with the video id when it is in the set: a list or a
  \<open>dict\<close> cannot be hashed (\<open>TypeError\<close>), and only a string can equal a file stem.
\<close>

definition in_available :: "json \<Rightarrow> string set \<Rightarrow> error + string option" where
  "in_available video_id available_videos =
     (case video_id of
        JString s \<Rightarrow> Inr (if s \<in> available_videos then Some s else None)
      | JNull \<Rightarrow> Inr None
      | JBool b \<Rightarrow> Inr None
      | JNumber n \<Rightarrow> Inr None
      | JArray xs \<Rightarrow> Inl TypeError
      | JObject kvs \<Rightarrow> Inl TypeError)"

type_synonym index = "(string \<times> string) list"

text \<open>
  The inner loop of the index builder: the first instance whose video is available. The
  instances after it are not looked at.
\<close>

fun first_available :: "json list \<Rightarrow> string set \<Rightarrow> error + string option" where
  "first_available [] available_videos = Inr None"
| "first_available (instance # instances) available_videos =
     (case dict_get instance ''video_id'' (JString []) of
        Inl e \<Rightarrow> Inl e
      | Inr video_id \<Rightarrow>
          (case in_available video_id available_videos of
             Inl e \<Rightarrow> Inl e
           | Inr (Some s) \<Rightarrow> Inr (Some s)
           | Inr None \<Rightarrow> first_available instances available_videos))"

fun build_gloss_to_video :: "json list \<Rightarrow> string set \<Rightarrow> index \<Rightarrow> error + index" where
  "build_gloss_to_video [] available_videos gloss_to_video = Inr gloss_to_video"
| "build_gloss_to_video (entry # entries) available_videos gloss_to_video =
     (case dict_get entry ''gloss'' (JString []) of
        Inl e \<Rightarrow> Inl e
      | Inr g \<Rightarrow>
     (case str_lower g of
        Inl e \<Rightarrow> Inl e
      | Inr gloss \<Rightarrow>
     (case dict_get entry ''instances'' (JArray []) of
        Inl e \<Rightarrow> Inl e
      | Inr i \<Rightarrow>
     (case py_items i of
        Inl e \<Rightarrow> Inl e
      | Inr instances \<Rightarrow>
     (case first_available instances available_videos of
        Inl e \<Rightarrow> Inl e
      | Inr None \<Rightarrow> build_gloss_to_video entries available_videos gloss_to_video
      | Inr (Some video_id) \<Rightarrow>
          build_gloss_to_video entries available_videos
            (AList.update gloss video_id gloss_to_video))))))"

text \<open>
  The shape the dataset description is meant to have: a list of entries, each with an
  optional \<open>gloss\<close> and an optional list of instances, each instance with an optional
  \<open>video_id\<close>; and the JSON value such an entry is.
\<close>

type_synonym video_instance = "string option"

record entry =
  entry_gloss :: "string option"
  entry_instances :: "video_instance list option"



text \<open>
  \<open>{f.stem for f in videos_path.glob("*.mp4")}\<close>. The videos folder is listed with, for
  each name, the bytes \<open>shutil.copy2\<close> reads, or \<open>None\<close> for an entry that is listed
  but cannot be copied (a folder, an unreadable file).
\<close>

definition available_videos_of :: "(string \<times> string option) list \<Rightarrow> string set" where
  "available_videos_of videos = set (map stem (filter (ends_with ''.mp4'') (map fst videos)))"

text \<open>Python truthiness of \<open>video_id\<close>: \<open>None\<close> and the empty string are false.\<close>

definition truthy :: "string option \<Rightarrow> bool" where
  "truthy v = (case v of None \<Rightarrow> False | Some s \<Rightarrow> s \<noteq> [])"

definition exact_match :: "index \<Rightarrow> string \<Rightarrow> string option" where
  "exact_match gloss_to_video target_lower = map_of gloss_to_video target_lower"

definition match_without_spaces :: "index \<Rightarrow> string \<Rightarrow> string option" where
  "match_without_spaces gloss_to_video target_lower =
     first_item (\<lambda>gloss. target_lower = remove_spaces gloss) gloss_to_video"

definition partial_match :: "index \<Rightarrow> string \<Rightarrow> string option" where
  "partial_match gloss_to_video target_lower =
     first_item (\<lambda>gloss. py_in target_lower gloss \<or> py_in gloss target_lower) gloss_to_video"

text \<open>
  The three lookups of the copy loop, in the order of the source; the result also names
  the lookup that set \<open>video_id\<close> last.
\<close>

definition resolve :: "index \<Rightarrow> string \<Rightarrow> (tier \<times> string) option" where
  "resolve gloss_to_video target =
     (let target_lower = remove_spaces (lower target);
          v1 = (Exact, exact_match gloss_to_video target_lower);
          v2 = (if \<not> truthy (snd v1)
                then (case match_without_spaces gloss_to_video target_lower of
                        Some vid \<Rightarrow> (NoSpaces, Some vid)
                      | None \<Rightarrow> v1)
                else v1);
          v3 = (if \<not> truthy (snd v2)
                then (case partial_match gloss_to_video target_lower of
                        Some vid \<Rightarrow> (Partial, Some vid)
                      | None \<Rightarrow> v2)
                else v2)
      in case snd v3 of
           None \<Rightarrow> None
         | Some video_id \<Rightarrow> if video_id = [] then None else Some (fst v3, video_id))"

record copy_state =
  copied :: nat
  copied_list :: "string list"
  missing :: "string list"
  assets :: folder

definition dst_name_of :: "string \<Rightarrow> string" where
  "dst_name_of target = replace_char CHR '' '' CHR ''_'' (lower target) @ ''.mp4''"

text \<open>
  One iteration of the copy loop. \<open>videos\<close> is the videos folder at copy time: \<open>None\<close>
  for a name that does not exist, else the bytes of the file, or \<open>None\<close> when
  \<open>shutil.copy2\<close> cannot read it. \<open>can_write\<close> tells whether a file of the output folder
  can be written.
\<close>

definition copy_target ::
  "index \<Rightarrow> (string \<rightharpoonup> string option) \<Rightarrow> (string \<Rightarrow> bool) \<Rightarrow> string \<Rightarrow> copy_state
    \<Rightarrow> error + copy_state"
where
  "copy_target gloss_to_video videos can_write target st =
     (case resolve gloss_to_video target of
        None \<Rightarrow> Inr (st\<lparr>missing := missing st @ [target]\<rparr>)
      | Some (t, video_id) \<Rightarrow>
          (let src = video_id @ ''.mp4'';
               dst_name = dst_name_of target
           in case videos src of
                Some content \<Rightarrow>
                  (case content of
                     None \<Rightarrow> Inl (CopyError dst_name)
                   | Some bytes \<Rightarrow>
                       if can_write dst_name
                       then Inr (st\<lparr>assets := (assets st)(dst_name \<mapsto> Bytes bytes),
                                   copied := copied st + 1,
                                   copied_list := copied_list st @ [target]\<rparr>)
                       else Inl (CopyError dst_name))
              | None \<Rightarrow> Inr (st\<lparr>missing := missing st @ [target]\<rparr>)))"

fun copy_loop ::
  "index \<Rightarrow> (string \<rightharpoonup> string option) \<Rightarrow> (string \<Rightarrow> bool) \<Rightarrow> string list \<Rightarrow> copy_state
    \<Rightarrow> (error \<times> copy_state) + copy_state"
where
  "copy_loop gloss_to_video videos can_write [] st = Inr st"
| "copy_loop gloss_to_video videos can_write (target # targets) st =
     (case copy_target gloss_to_video videos can_write target st of
        Inl e \<Rightarrow> Inl (e, st)
      | Inr st' \<Rightarrow> copy_loop gloss_to_video videos can_write targets st')"

definition init_state :: "folder \<Rightarrow> copy_state" where
  "init_state a = \<lparr>copied = 0, copied_list = [], missing = [], assets = a\<rparr>"

definition manifest_of :: "copy_state \<Rightarrow> manifest" where
  "manifest_of st =
     \<lparr>manifest_source = ''WLASL v0.3'',
      manifest_count = copied st,
      manifest_glosses = sort (copied_list st),
      manifest_missing = sort (missing st)\<rparr>"

text \<open>
  What the script reads and writes: the parsed dataset description (\<open>None\<close> when
  \<open>open\<close> or \<open>json.load\<close> raises), the listing of the videos folder (empty when the
  folder is absent: \<open>glob\<close> then yields nothing), and the output folder. Printing to the
  standard output is not modelled.
\<close>

record wlasl_world = output_env +
  json_file :: "json option"
  videos_dir :: "(string \<times> string option) list"

text \<open>
  \<open>main\<close>, with the literal \<open>TARGET_GLOSSES\<close> as a parameter (the elements of the set
  literal). The result is the error that ended the run, if any, and the output folder.
\<close>

definition import_wlasl_main :: "string list \<Rightarrow> wlasl_world \<Rightarrow> error option \<times> folder" where
  "import_wlasl_main target_glosses w =
     (if \<not> can_mkdir w then (Some MkdirError, avatar_assets w)
      else case json_file w of
        None \<Rightarrow> (Some JsonError, avatar_assets w)
      | Some wlasl_data \<Rightarrow>
          (case py_items wlasl_data of
             Inl e \<Rightarrow> (Some e, avatar_assets w)
           | Inr entries \<Rightarrow>
               (case build_gloss_to_video entries (available_videos_of (videos_dir w)) [] of
                  Inl e \<Rightarrow> (Some e, avatar_assets w)
                | Inr gloss_to_video \<Rightarrow>
                    (case copy_loop gloss_to_video (map_of (videos_dir w)) (can_write_asset w)
                            (sorted_list_of_set (set target_glosses))
                            (init_state (avatar_assets w)) of
                       Inl (e, st) \<Rightarrow> (Some e, assets st)
                     | Inr st \<Rightarrow>
                         if \<not> can_write_asset w ''manifest.json''
                         then (Some (WriteError ''manifest.json''), assets st)
                         else
                           (let a1 = (assets st)(''manifest.json'' \<mapsto> Json (manifest_of st))
                            in if \<not> can_write_asset w ''_all_available_glosses.txt''
                               then (Some (WriteError ''_all_available_glosses.txt''), a1)
                               else (None, a1(''_all_available_glosses.txt'' \<mapsto>
                                                gloss_listing (map fst gloss_to_video))))))))"

definition TARGET_GLOSSES :: "string list" where
  "TARGET_GLOSSES =
     [''hello'', ''hi'', ''goodbye'', ''bye'',
      ''thank you'', ''please'', ''sorry'', ''excuse'',
      ''yes'', ''no'', ''maybe'', ''ok'',
      ''help'', ''stop'', ''wait'', ''go'', ''come'', ''sit'', ''stand'',
      ''happy'', ''sad'', ''angry'', ''tired'', ''sick'', ''hurt'', ''pain'',
      ''water'', ''food'', ''hungry'', ''thirsty'', ''bathroom'', ''eat'', ''drink'',
      ''what'', ''where'', ''when'', ''why'', ''who'', ''how'', ''which'',
      ''mother'', ''father'', ''family'', ''friend'', ''brother'', ''sister'',
      ''want'', ''need'', ''like'', ''love'', ''know'', ''understand'',
      ''good'', ''bad'', ''fine'', ''cool'', ''hot'', ''cold'',
      ''more'', ''again'', ''finish'', ''done'', ''now'', ''later'',
      ''name'', ''work'', ''school'', ''home'', ''doctor'',
      ''open'', ''close'', ''big'', ''small'', ''all'',
      ''morning'', ''night'', ''day'', ''week'', ''year'', ''today'', ''tomorrow'',
      ''red'', ''blue'', ''green'', ''yellow'', ''black'', ''white'', ''orange'', ''pink'',
      ''purple'', ''brown'',
      ''one'', ''two'', ''three'', ''four'', ''five'', ''six'', ''seven'', ''eight'', ''nine'',
      ''ten'']"

definition wlasl_main :: "wlasl_world \<Rightarrow> error option \<times> folder" where
  "wlasl_main w = import_wlasl_main TARGET_GLOSSES w"

section \<open>import\_wlasl\_videos.py\<close>

text \<open>
  The dataset folder is a tree. A video reference is the path of a file below the
  scanned folder: one component for a flat file, two for a file in a gloss folder.
\<close>

datatype node = File string | Dir "(string \<times> node) list"

type_synonym path = "string list"

type_synonym video_index = "(string \<times> path) list"

definition child :: "node \<Rightarrow> string \<Rightarrow> node option" where
  "child n name = (case n of File bytes \<Rightarrow> None | Dir items \<Rightarrow> map_of items name)"

fun node_at :: "node \<Rightarrow> path \<Rightarrow> node option" where
  "node_at n [] = Some n"
| "node_at n (name # names) =
     (case child n name of None \<Rightarrow> None | Some m \<Rightarrow> node_at m names)"

text \<open>The bytes \<open>shutil.copy2\<close> reads: \<open>None\<close> when the path is absent or a folder.\<close>

definition read_file :: "node \<Rightarrow> path \<Rightarrow> string option" where
  "read_file root src =
     (case node_at root src of
        None \<Rightarrow> None
      | Some (File bytes) \<Rightarrow> Some bytes
      | Some (Dir items) \<Rightarrow> None)"

definition find_wlasl_structure :: "node \<Rightarrow> node" where
  "find_wlasl_structure wlasl_path =
     (case child wlasl_path ''videos'' of
        Some videos \<Rightarrow> videos
      | None \<Rightarrow>
          (case child wlasl_path ''processed'' of
             Some processed \<Rightarrow> processed
           | None \<Rightarrow> wlasl_path))"

text \<open>The gloss a folder name and a flat file name stand for, and the extension filter.\<close>

definition folder_gloss :: "string \<Rightarrow> string" where
  "folder_gloss name = replace_char CHR ''_'' CHR '' '' (lower name)"

definition flat_gloss :: "string \<Rightarrow> string" where
  "flat_gloss name = replace_char CHR ''_'' CHR '' '' (lower (rsplit1_head (stem name)))"

definition has_video_suffix :: "string \<Rightarrow> bool" where
  "has_video_suffix name = (lower (path_suffix name) \<in> set [''.mp4'', ''.mov'', ''.m4v''])"

text \<open>
  \<open>get_video_files\<close>: the loop over \<open>videos_path.iterdir()\<close>, in the order of the
  listing, with the dictionary \<open>gloss_videos\<close> as accumulator.
\<close>

fun get_video_files :: "(string \<times> node) list \<Rightarrow> video_index \<Rightarrow> video_index" where
  "get_video_files [] gloss_videos = gloss_videos"
| "get_video_files ((name, item) # items) gloss_videos =
     (case item of
        Dir children \<Rightarrow>
          (let gloss = folder_gloss name;
               videos = filter (ends_with ''.mp4'') (map fst children)
                        @ filter (ends_with ''.mov'') (map fst children)
           in get_video_files items
                (case videos of
                   [] \<Rightarrow> gloss_videos
                 | v # vs \<Rightarrow> AList.update gloss [name, v] gloss_videos))
      | File bytes \<Rightarrow>
          if has_video_suffix name
          then (let gloss = flat_gloss name
                in get_video_files items
                     (if map_of gloss_videos gloss = None
                      then AList.update gloss [name] gloss_videos
                      else gloss_videos))
          else get_video_files items gloss_videos)"

text \<open>The two lookups of the copy loop: the key itself, then the first key that contains
  the target or is contained in it.\<close>

definition videos_resolve :: "video_index \<Rightarrow> string \<Rightarrow> (tier \<times> path) option" where
  "videos_resolve available gloss =
     (let gloss_lower = lower gloss
      in case map_of available gloss_lower of
           Some src \<Rightarrow> Some (Exact, src)
         | None \<Rightarrow>
             (case first_item (\<lambda>key. py_in gloss_lower key \<or> py_in key gloss_lower) available of
                None \<Rightarrow> None
              | Some found \<Rightarrow> Some (Partial, found)))"

record videos_state =
  videos_copied :: nat
  videos_missing :: "string list"
  videos_assets :: folder

definition out_name_of :: "string \<Rightarrow> string" where
  "out_name_of gloss = replace_char CHR '' '' CHR ''_'' (lower gloss) @ ''.mp4''"

text \<open>One iteration: \<open>shutil.copy2\<close> raises when the source cannot be read or the
  destination cannot be written.\<close>

definition videos_copy_target ::
  "video_index \<Rightarrow> node \<Rightarrow> (string \<Rightarrow> bool) \<Rightarrow> string \<Rightarrow> videos_state \<Rightarrow> error + videos_state"
where
  "videos_copy_target available videos_path can_write gloss st =
     (case videos_resolve available gloss of
        None \<Rightarrow> Inr (st\<lparr>videos_missing := videos_missing st @ [gloss]\<rparr>)
      | Some (t, src) \<Rightarrow>
          (let out_name = out_name_of gloss
           in case read_file videos_path src of
                None \<Rightarrow> Inl (CopyError out_name)
              | Some bytes \<Rightarrow>
                  if can_write out_name
                  then Inr (st\<lparr>videos_assets := (videos_assets st)(out_name \<mapsto> Bytes bytes),
                              videos_copied := videos_copied st + 1\<rparr>)
                  else Inl (CopyError out_name)))"

fun videos_copy_loop ::
  "video_index \<Rightarrow> node \<Rightarrow> (string \<Rightarrow> bool) \<Rightarrow> string list \<Rightarrow> videos_state
    \<Rightarrow> (error \<times> videos_state) + videos_state"
where
  "videos_copy_loop available videos_path can_write [] st = Inr st"
| "videos_copy_loop available videos_path can_write (gloss # glosses) st =
     (case videos_copy_target available videos_path can_write gloss st of
        Inl e \<Rightarrow> Inl (e, st)
      | Inr st' \<Rightarrow> videos_copy_loop available videos_path can_write glosses st')"

definition videos_init_state :: "folder \<Rightarrow> videos_state" where
  "videos_init_state a = \<lparr>videos_copied = 0, videos_missing = [], videos_assets = a\<rparr>"

text \<open>
  What the script reads: \<open>sys.argv\<close> and the file system below a path (\<open>None\<close> when the
  path does not exist).
\<close>

record videos_world = output_env +
  argv :: "string list"
  tree_at :: "string \<Rightarrow> node option"

definition import_wlasl_videos_main ::
  "string list \<Rightarrow> videos_world \<Rightarrow> error option \<times> folder"
where
  "import_wlasl_videos_main target_glosses w =
     (if length (argv w) < 2 then (Some UsageError, avatar_assets w)
      else case tree_at w (argv w ! 1) of
        None \<Rightarrow> (Some PathNotFound, avatar_assets w)
      | Some wlasl_path \<Rightarrow>
          if \<not> can_mkdir w then (Some MkdirError, avatar_assets w)
          else
            (let videos_path = find_wlasl_structure wlasl_path
             in case videos_path of
                  File bytes \<Rightarrow> (Some NotADirectory, avatar_assets w)
                | Dir items \<Rightarrow>
                    (let available = get_video_files items []
                     in case videos_copy_loop available videos_path (can_write_asset w)
                               target_glosses (videos_init_state (avatar_assets w)) of
                          Inl (e, st) \<Rightarrow> (Some e, videos_assets st)
                        | Inr st \<Rightarrow>
                            if \<not> can_write_asset w ''_available_glosses.txt''
                            then (Some (WriteError ''_available_glosses.txt''), videos_assets st)
                            else (None, (videos_assets st)(''_available_glosses.txt'' \<mapsto>
                                           gloss_listing (map fst available))))))"

definition VIDEOS_TARGET_GLOSSES :: "string list" where
  "VIDEOS_TARGET_GLOSSES =
     [''hello'', ''hi'', ''hey'',
      ''goodbye'', ''bye'',
      ''thank you'', ''thanks'',
      ''please'', ''sorry'',
      ''yes'', ''no'', ''maybe'',
      ''help'', ''stop'', ''wait'',
      ''love'',
      ''good'', ''morning'', ''night'',
      ''how'', ''fine'',
      ''water'', ''food'', ''hungry'', ''thirsty'',
      ''bathroom'', ''pain'', ''tired'',
      ''happy'', ''sad'', ''angry'',
      ''name'', ''what'', ''where'', ''when'', ''why'', ''who'',
      ''want'', ''need'', ''like'',
      ''understand'', ''know'',
      ''family'', ''friend'', ''mother'', ''father'',
      ''eat'', ''drink'', ''sleep'',
      ''go'', ''come'', ''sit'', ''stand'',
      ''open'', ''close'',
      ''hot'', ''cold'',
      ''big'', ''small'',
      ''more'', ''again'',
      ''finish'', ''done'']"

definition videos_main :: "videos_world \<Rightarrow> error option \<times> folder" where
  "videos_main w = import_wlasl_videos_main VIDEOS_TARGET_GLOSSES w"

text \<open>The state in which a loop ended, whether it completed or raised.\<close>

definition loop_state :: "('e \<times> 's) + 's \<Rightarrow> 's" where
  "loop_state r = (case r of Inl (e, st) \<Rightarrow> st | Inr st \<Rightarrow> st)"

section \<open>Properties of the string operations\<close>

lemmas str_defs = lower_def lower_char_def remove_spaces_def replace_char_def

lemma starts_with_iff: "starts_with xs ys \<longleftrightarrow> (\<exists>ss. ys = xs @ ss)"
  by (induction xs ys rule: starts_with.induct) auto

text \<open>\<open>py_in\<close> is the substring test.\<close>

lemma py_in_iff: "py_in xs ys \<longleftrightarrow> (\<exists>ps ss. ys = ps @ xs @ ss)"
proof (induction ys)
  case Nil
  then show ?case by auto
next
  case (Cons y ys)
  show ?case
    by (auto simp: Cons starts_with_iff Cons_eq_append_conv)
qed

lemma first_item_in_set:
  "first_item P kvs = Some v \<Longrightarrow> \<exists>k. (k, v) \<in> set kvs \<and> P k"
  by (induction P kvs rule: first_item.induct) (auto split: if_splits)

lemma first_item_None:
  "first_item P kvs = None \<longleftrightarrow> (\<forall>(k, v) \<in> set kvs. \<not> P k)"
  by (induction P kvs rule: first_item.induct) auto

lemma first_item_value: "first_item P kvs = Some v \<Longrightarrow> v \<in> snd ` set kvs"
  by (force dest: first_item_in_set)

lemma map_of_value: "map_of kvs k = Some v \<Longrightarrow> v \<in> snd ` set kvs"
  by (force dest: map_of_SomeD)

section \<open>Resolution\<close>

text \<open>
  When no video id of the index is empty, the three lookups of \<open>import_wlasl.py\<close> are
  tried in the order exact, without spaces, partial, and the first that finds a key
  decides.
\<close>

lemma resolve_tiers:
  assumes "[] \<notin> snd ` set idx"
  shows "resolve idx t =
     (case exact_match idx (remove_spaces (lower t)) of
        Some v \<Rightarrow> Some (Exact, v)
      | None \<Rightarrow>
          (case match_without_spaces idx (remove_spaces (lower t)) of
             Some v \<Rightarrow> Some (NoSpaces, v)
           | None \<Rightarrow>
               (case partial_match idx (remove_spaces (lower t)) of
                  Some v \<Rightarrow> Some (Partial, v)
                | None \<Rightarrow> None)))"
proof -
  have ne: "v \<noteq> []" if "v \<in> snd ` set idx" for v
    using assms that by metis
  show ?thesis
    by (auto simp: resolve_def Let_def truthy_def exact_match_def match_without_spaces_def
        partial_match_def split: option.splits
        dest!: map_of_value first_item_value ne)
qed

lemma resolve_exact:
  assumes "map_of idx (remove_spaces (lower t)) = Some v" and "v \<noteq> []"
  shows "resolve idx t = Some (Exact, v)"
  using assms by (simp add: resolve_def Let_def truthy_def exact_match_def)

subsection \<open>The scenario of the two targets\<close>

text \<open>
  In \<open>import_wlasl.py\<close> the target \<open>thank you\<close> is not resolved by the lookup without
  spaces: the first lookup already uses the target with its spaces removed, and finds
  the key \<open>thankyou\<close>.
\<close>

theorem scenario_tier_counterexample:
  "\<not> (resolve [(''hello'', ''video_A''), (''thankyou'', ''video_B'')] ''hello''
         = Some (Exact, ''video_A'')
      \<and> resolve [(''hello'', ''video_A''), (''thankyou'', ''video_B'')] ''thank you''
         = Some (NoSpaces, ''video_B''))"
  by (simp add: resolve_def exact_match_def truthy_def str_defs)

text \<open>
  C1 (amended). For the targets \<open>hello\<close> and \<open>thank you\<close> and the index with the keys
  \<open>hello\<close> and \<open>thankyou\<close>, \<open>import_wlasl.py\<close> resolves both targets by the exact
  lookup, to \<open>video_A\<close> and \<open>video_B\<close>, and the copy loop writes \<open>hello.mp4\<close> and
  \<open>thank_you.mp4\<close> and nothing else. \<open>import_wlasl_videos.py\<close> resolves \<open>hello\<close> by
  the exact lookup, records \<open>thank you\<close> as missing, and writes \<open>hello.mp4\<close> only.
\<close>

theorem scenario_hello_thank_you:
  "resolve [(''hello'', ''video_A''), (''thankyou'', ''video_B'')] ''hello''
     = Some (Exact, ''video_A'')
   \<and> resolve [(''hello'', ''video_A''), (''thankyou'', ''video_B'')] ''thank you''
     = Some (Exact, ''video_B'')
   \<and> copy_loop [(''hello'', ''video_A''), (''thankyou'', ''video_B'')]
        (map_of [(''video_A.mp4'', Some a), (''video_B.mp4'', Some b)]) (\<lambda>n. True)
        (sorted_list_of_set (set [''hello'', ''thank you''])) (init_state Map.empty)
     = Inr \<lparr>copied = 2, copied_list = [''hello'', ''thank you''], missing = [],
            assets = [''hello.mp4'' \<mapsto> Bytes a, ''thank_you.mp4'' \<mapsto> Bytes b]\<rparr>
   \<and> videos_resolve [(''hello'', [''hello_1.mp4'']), (''thankyou'', [''thankyou_1.mp4''])] ''hello''
     = Some (Exact, [''hello_1.mp4''])
   \<and> videos_resolve [(''hello'', [''hello_1.mp4'']), (''thankyou'', [''thankyou_1.mp4''])] ''thank you''
     = None
   \<and> videos_copy_loop [(''hello'', [''hello_1.mp4'']), (''thankyou'', [''thankyou_1.mp4''])]
        (Dir [(''hello_1.mp4'', File a), (''thankyou_1.mp4'', File b)]) (\<lambda>n. True)
        [''hello'', ''thank you''] (videos_init_state Map.empty)
     = Inr \<lparr>videos_copied = 1, videos_missing = [''thank you''],
            videos_assets = [''hello.mp4'' \<mapsto> Bytes a]\<rparr>"
  by (simp add: sorted_list_of_set_sort_remdups copy_target_def resolve_def exact_match_def
      truthy_def str_defs init_state_def dst_name_of_def videos_resolve_def videos_copy_target_def
      videos_init_state_def out_name_of_def read_file_def child_def)

subsection \<open>The order of the lookups\<close>

text \<open>
  \<open>import_wlasl_videos.py\<close> has no lookup without spaces: although the key
  \<open>thankyou\<close> equals the target \<open>thank you\<close> once spaces are removed, the partial
  match with the earlier key \<open>thank\<close> is chosen.
\<close>

theorem videos_priority_counterexample:
  "videos_resolve [(''thank'', [''thank_1.mp4'']), (''thankyou'', [''thankyou_1.mp4''])] ''thank you''
     = Some (Partial, [''thank_1.mp4''])
   \<and> remove_spaces (lower ''thank you'') = remove_spaces (lower ''thankyou'')"
  by (simp add: videos_resolve_def str_defs)

text \<open>
  C2 (amended). In \<open>import_wlasl.py\<close>, for every target and every index whose video ids
  are non-empty, the lookups are tried in the order exact, without spaces, partial, and
  the first that succeeds decides; \<open>import_wlasl_videos.py\<close> tries the exact lookup and
  then the partial one only. In both scripts a key equal to the normalized target is
  chosen, whatever other keys match partially.
\<close>

theorem resolution_priority:
  assumes "[] \<notin> snd ` set idx"
  shows "resolve idx t =
           (case exact_match idx (remove_spaces (lower t)) of
              Some v \<Rightarrow> Some (Exact, v)
            | None \<Rightarrow>
                (case match_without_spaces idx (remove_spaces (lower t)) of
                   Some v \<Rightarrow> Some (NoSpaces, v)
                 | None \<Rightarrow>
                     (case partial_match idx (remove_spaces (lower t)) of
                        Some v \<Rightarrow> Some (Partial, v)
                      | None \<Rightarrow> None)))
         \<and> (\<forall>v. map_of idx (remove_spaces (lower t)) = Some v
                \<longrightarrow> resolve idx t = Some (Exact, v))
         \<and> videos_resolve available g =
           (case map_of available (lower g) of
              Some p \<Rightarrow> Some (Exact, p)
            | None \<Rightarrow>
                (case first_item (\<lambda>key. py_in (lower g) key \<or> py_in key (lower g)) available of
                   Some p \<Rightarrow> Some (Partial, p)
                 | None \<Rightarrow> None))
         \<and> (\<forall>p. map_of available (lower g) = Some p
                \<longrightarrow> videos_resolve available g = Some (Exact, p))"
proof -
  note r = resolve_tiers [OF assms, of t]
  have "resolve idx t = Some (Exact, v)" if "map_of idx (remove_spaces (lower t)) = Some v" for v
    using that by (simp add: r exact_match_def)
  moreover have "videos_resolve available g = Some (Exact, p)"
    if "map_of available (lower g) = Some p" for p
    using that by (simp add: videos_resolve_def)
  moreover have "videos_resolve available g =
           (case map_of available (lower g) of
              Some p \<Rightarrow> Some (Exact, p)
            | None \<Rightarrow>
                (case first_item (\<lambda>key. py_in (lower g) key \<or> py_in key (lower g)) available of
                   Some p \<Rightarrow> Some (Partial, p)
                 | None \<Rightarrow> None))"
    by (simp add: videos_resolve_def Let_def split: option.splits)
  ultimately show ?thesis
    using r by blast
qed

theorem resolution_priority_witness:
  "[] \<notin> snd ` set [(''thankyou all'', ''v2''), (''thank you'', ''v3''), (''thankyou'', ''v1'')]
   \<and> partial_match [(''thankyou all'', ''v2''), (''thank you'', ''v3''), (''thankyou'', ''v1'')]
        (remove_spaces (lower ''thank you'')) = Some ''v2''
   \<and> resolve [(''thankyou all'', ''v2''), (''thank you'', ''v3''), (''thankyou'', ''v1'')]
        ''thank you'' = Some (Exact, ''v1'')
   \<and> videos_resolve [(''thank'', [''thank_1.mp4'']), (''thank you'', [''thank_you_1.mp4''])]
        ''Thank you'' = Some (Exact, [''thank_you_1.mp4''])"
  using resolution_priority [of "[(''thankyou all'', ''v2''), (''thank you'', ''v3''), (''thankyou'', ''v1'')]"
      "''thank you''" "[(''thank'', [''thank_1.mp4'']), (''thank you'', [''thank_you_1.mp4''])]"
      "''Thank you''"]
  by (simp add: exact_match_def partial_match_def str_defs)

subsection \<open>The exact lookup\<close>

lemma lower_char_idem: "lower_char (lower_char c) = lower_char c"
  by (cases c) (simp add: lower_char_def)

lemma lower_idem: "lower (lower s) = lower s"
  by (simp add: lower_def lower_char_idem)

lemma first_item_found: "(k, v) \<in> set kvs \<Longrightarrow> P k \<Longrightarrow> first_item P kvs \<noteq> None"
  by (induction P kvs rule: first_item.induct) auto

text \<open>
  The keys of the index are not stripped of their spaces for the exact lookup. In
  \<open>import_wlasl.py\<close> the target \<open>Thank You\<close> and the key \<open>thank you\<close> are equal once
  lower-cased and stripped, yet the exact lookup fails (the lookup without spaces then
  succeeds); in \<open>import_wlasl_videos.py\<close> the target \<open>thank you\<close> and the key
  \<open>thankyou\<close> are equal once stripped, and no lookup succeeds.
\<close>

theorem exact_tier_counterexample:
  "remove_spaces (lower ''Thank You'') = remove_spaces (lower ''thank you'')
   \<and> exact_match [(''thank you'', ''v1'')] (remove_spaces (lower ''Thank You'')) = None
   \<and> resolve [(''thank you'', ''v1'')] ''Thank You'' = Some (NoSpaces, ''v1'')
   \<and> remove_spaces (lower ''thank you'') = remove_spaces (lower ''thankyou'')
   \<and> videos_resolve [(''thankyou'', [''thankyou_1.mp4''])] ''thank you'' = None"
  by (simp add: resolve_def exact_match_def match_without_spaces_def truthy_def str_defs
      videos_resolve_def)

text \<open>
  C3 (amended). In \<open>import_wlasl.py\<close> the exact lookup searches the lower-cased,
  space-stripped target among the keys as the index stores them (spaces kept): it
  succeeds exactly when a stored key is that string. When a stored key equals it only
  after the key's own spaces are removed, the target is still resolved, by the exact
  lookup or by the lookup without spaces. In \<open>import_wlasl_videos.py\<close> the exact lookup
  searches the lower-cased target, spaces kept, among the stored keys.
\<close>

theorem exact_tier_lookup:
  assumes "distinct (map fst idx)" and "[] \<notin> snd ` set idx" and "distinct (map fst available)"
  shows "(resolve idx t = Some (Exact, v) \<longleftrightarrow> (remove_spaces (lower t), v) \<in> set idx)
       \<and> (\<forall>k u. (k, u) \<in> set idx \<and> remove_spaces k = remove_spaces (lower t)
            \<longrightarrow> (\<exists>u'. resolve idx t = Some (Exact, u') \<or> resolve idx t = Some (NoSpaces, u')))
       \<and> (videos_resolve available g = Some (Exact, p) \<longleftrightarrow> (lower g, p) \<in> set available)"
proof -
  note r = resolve_tiers [OF assms(2), of t]
  have m: "(k, u) \<in> set idx \<longleftrightarrow> map_of idx k = Some u" for k u
    using assms(1) by simp
  have a: "resolve idx t = Some (Exact, v) \<longleftrightarrow> (remove_spaces (lower t), v) \<in> set idx"
    unfolding m by (auto simp: r exact_match_def split: option.splits)
  have b: "\<exists>u'. resolve idx t = Some (Exact, u') \<or> resolve idx t = Some (NoSpaces, u')"
    if "(k, u) \<in> set idx" and "remove_spaces k = remove_spaces (lower t)" for k u
  proof (cases "exact_match idx (remove_spaces (lower t))")
    case (Some w)
    then show ?thesis by (simp add: r)
  next
    case None
    have "match_without_spaces idx (remove_spaces (lower t)) \<noteq> None"
      using that first_item_found [of k u idx "\<lambda>gloss. remove_spaces (lower t) = remove_spaces gloss"]
      by (simp add: match_without_spaces_def)
    then show ?thesis using None by (auto simp: r)
  qed
  have n: "(k, q) \<in> set available \<longleftrightarrow> map_of available k = Some q" for k q
    using assms(3) by simp
  have c: "videos_resolve available g = Some (Exact, p) \<longleftrightarrow> (lower g, p) \<in> set available"
    unfolding n by (auto simp: videos_resolve_def Let_def split: option.splits)
  show ?thesis using a b c by blast
qed

theorem exact_tier_lookup_witness:
  "distinct (map fst [(''thank you'', ''v1''), (''hello'', ''v2'')])
   \<and> [] \<notin> snd ` set [(''thank you'', ''v1''), (''hello'', ''v2'')]
   \<and> distinct (map fst [(''thank you'', [''thank_you_1.mp4''])])
   \<and> resolve [(''thank you'', ''v1''), (''hello'', ''v2'')] ''Hello'' = Some (Exact, ''v2'')
   \<and> resolve [(''thank you'', ''v1''), (''hello'', ''v2'')] ''Thank You'' = Some (NoSpaces, ''v1'')
   \<and> videos_resolve [(''thank you'', [''thank_you_1.mp4''])] ''Thank You''
       = Some (Exact, [''thank_you_1.mp4''])"
  using exact_tier_lookup [of "[(''thank you'', ''v1''), (''hello'', ''v2'')]"
      "[(''thank you'', [''thank_you_1.mp4''])]" "''Hello''" "''v2''" "''Thank You''"
      "[''thank_you_1.mp4'']"]
    exact_tier_lookup [of "[(''thank you'', ''v1''), (''hello'', ''v2'')]"
      "[(''thank you'', [''thank_you_1.mp4''])]" "''Thank You''" "''v1''" "''Thank You''"
      "[''thank_you_1.mp4'']"]
  by (simp add: str_defs resolve_def exact_match_def match_without_spaces_def truthy_def)

section \<open>The copy loop\<close>

lemma copy_target_missing_mono:
  "copy_target idx videos cw t st = Inr st' \<Longrightarrow> set (missing st) \<subseteq> set (missing st')"
  by (auto simp: copy_target_def Let_def split: option.splits if_splits)

lemma copy_loop_missing_mono:
  "set (missing st) \<subseteq> set (missing (loop_state (copy_loop idx videos cw ts st)))"
proof (induction ts arbitrary: st)
  case Nil
  then show ?case by (simp add: loop_state_def)
next
  case (Cons t ts)
  show ?case
  proof (cases "copy_target idx videos cw t st")
    case (Inl e)
    then show ?thesis by (simp add: loop_state_def)
  next
    case (Inr st')
    then show ?thesis
      using Cons.IH [of st'] copy_target_missing_mono [OF Inr] by auto
  qed
qed

text \<open>
  \<open>import_wlasl_videos.py\<close> copies without checking that the source exists: when the
  file of a resolved target is absent, \<open>shutil.copy2\<close> raises, the loop ends there,
  and the target is not recorded as missing.
\<close>

theorem videos_vanished_counterexample:
  "videos_resolve [(''hello'', [''hello_1.mp4''])] ''hello'' = Some (Exact, [''hello_1.mp4''])
   \<and> read_file (Dir []) [''hello_1.mp4''] = None
   \<and> videos_copy_loop [(''hello'', [''hello_1.mp4''])] (Dir []) (\<lambda>n. True)
        [''hello'', ''hi''] (videos_init_state Map.empty)
      = Inl (CopyError ''hello.mp4'', videos_init_state Map.empty)"
  by (simp add: videos_resolve_def videos_copy_target_def read_file_def child_def
      out_name_of_def str_defs)

text \<open>
  C4 (amended). In \<open>import_wlasl.py\<close>, for every resolved target whose source file does
  not exist at copy time, the iteration appends the target to \<open>missing\<close> and raises
  nothing; the loop goes on with the remaining targets, and the target is in \<open>missing\<close>
  in the state the loop ends in.
\<close>

theorem vanished_source_is_missing:
  assumes "resolve idx t = Some (tr, video_id)" and "videos (video_id @ ''.mp4'') = None"
  shows "copy_target idx videos cw t st = Inr (st\<lparr>missing := missing st @ [t]\<rparr>)
       \<and> copy_loop idx videos cw (t # ts) st
           = copy_loop idx videos cw ts (st\<lparr>missing := missing st @ [t]\<rparr>)
       \<and> t \<in> set (missing (loop_state (copy_loop idx videos cw (t # ts) st)))"
proof -
  have a: "copy_target idx videos cw t st = Inr (st\<lparr>missing := missing st @ [t]\<rparr>)"
    using assms by (simp add: copy_target_def)
  then have b: "copy_loop idx videos cw (t # ts) st
           = copy_loop idx videos cw ts (st\<lparr>missing := missing st @ [t]\<rparr>)"
    by simp
  have "t \<in> set (missing (st\<lparr>missing := missing st @ [t]\<rparr>))" by simp
  then have "t \<in> set (missing (loop_state (copy_loop idx videos cw ts (st\<lparr>missing := missing st @ [t]\<rparr>))))"
    using copy_loop_missing_mono by blast
  then show ?thesis using a b by simp
qed

theorem vanished_source_is_missing_witness:
  "resolve [(''hello'', ''v1''), (''hi'', ''v2'')] ''hello'' = Some (Exact, ''v1'')
   \<and> map_of [(''v2.mp4'', Some ''bytes2'')] (''v1'' @ ''.mp4'') = None
   \<and> copy_loop [(''hello'', ''v1''), (''hi'', ''v2'')] (map_of [(''v2.mp4'', Some ''bytes2'')])
        (\<lambda>n. True) [''hello'', ''hi''] (init_state Map.empty)
      = Inr \<lparr>copied = 1, copied_list = [''hi''], missing = [''hello''],
             assets = [''hi.mp4'' \<mapsto> Bytes ''bytes2'']\<rparr>"
  using vanished_source_is_missing [of "[(''hello'', ''v1''), (''hi'', ''v2'')]" "''hello''" Exact
      "''v1''" "map_of [(''v2.mp4'', Some ''bytes2'')]" "\<lambda>n. True" "init_state Map.empty" "[''hi'']"]
  by (simp add: resolve_def exact_match_def truthy_def str_defs copy_target_def init_state_def
      dst_name_of_def)

section \<open>The index builders\<close>














section \<open>Invariants of the copy loop\<close>

lemma copy_target_partition:
  assumes "copy_target idx videos cw t st = Inr st'"
  shows "mset (copied_list st') + mset (missing st')
           = mset (copied_list st) + mset (missing st) + {#t#}
       \<and> copied st' + length (copied_list st) = copied st + length (copied_list st')"
  using assms by (auto simp: copy_target_def Let_def split: option.splits if_splits)

lemma copy_loop_partition:
  assumes "copy_loop idx videos cw ts st = Inr st'"
  shows "mset (copied_list st') + mset (missing st')
           = mset (copied_list st) + mset (missing st) + mset ts
       \<and> copied st' + length (copied_list st) = copied st + length (copied_list st')"
  using assms
proof (induction ts arbitrary: st)
  case Nil
  then show ?case by simp
next
  case (Cons t ts)
  from Cons.prems obtain st1 where
    t: "copy_target idx videos cw t st = Inr st1" and
    l: "copy_loop idx videos cw ts st1 = Inr st'"
    by (auto split: sum.splits)
  show ?case
    using Cons.IH [OF l] copy_target_partition [OF t] by (simp add: ac_simps)
qed

text \<open>
  C10. In \<open>import_wlasl.py\<close>, when the copy loop has finished, every target gloss is in
  exactly one of \<open>copied_list\<close> and \<open>missing\<close>: the two lists have no repetition, are
  disjoint and together hold the target set. The counter \<open>copied\<close> is the length of
  \<open>copied_list\<close>, so the count of the manifest is the number of glosses it lists.
\<close>

theorem copied_missing_partition:
  assumes "copy_loop idx videos cw (sorted_list_of_set (set target_glosses)) (init_state a) = Inr st"
  shows "set (copied_list st) \<union> set (missing st) = set target_glosses
       \<and> set (copied_list st) \<inter> set (missing st) = {}
       \<and> distinct (copied_list st) \<and> distinct (missing st)
       \<and> copied st = length (copied_list st)
       \<and> manifest_count (manifest_of st) = length (manifest_glosses (manifest_of st))"
proof -
  let ?ts = "sorted_list_of_set (set target_glosses)"
  from copy_loop_partition [OF assms]
  have m: "mset (copied_list st @ missing st) = mset ?ts"
    and c: "copied st = length (copied_list st)"
    by (simp_all add: init_state_def)
  have "set (copied_list st @ missing st) = set ?ts"
    using m by (rule mset_eq_setD)
  then have u: "set (copied_list st) \<union> set (missing st) = set target_glosses"
    by simp
  have "distinct (copied_list st @ missing st)"
    using m mset_eq_imp_distinct_iff [OF m] by simp
  then have d: "distinct (copied_list st)" "distinct (missing st)"
    "set (copied_list st) \<inter> set (missing st) = {}"
    by auto
  show ?thesis using u d c by (simp add: manifest_of_def)
qed

text \<open>
  The files a copy loop writes do not depend on what the output folder holds: the folder
  after the loop is the folder before it, overridden by a fixed map.
\<close>

lemma copy_loop_writes:
  "\<exists>W. \<forall>c cl m a.
     assets (loop_state (copy_loop idx videos cw ts
       \<lparr>copied = c, copied_list = cl, missing = m, assets = a\<rparr>)) = a ++ W"
proof (induction ts)
  case Nil
  have "\<forall>c cl m a. assets (loop_state (copy_loop idx videos cw []
       \<lparr>copied = c, copied_list = cl, missing = m, assets = a\<rparr>)) = a ++ Map.empty"
    by (simp add: loop_state_def)
  then show ?case by blast
next
  case (Cons t ts)
  then obtain W where W: "\<And>c cl m a.
     assets (loop_state (copy_loop idx videos cw ts
       \<lparr>copied = c, copied_list = cl, missing = m, assets = a\<rparr>)) = a ++ W"
    by blast
  show ?case
  proof (cases "resolve idx t")
    case None
    have "\<forall>c cl m a. assets (loop_state (copy_loop idx videos cw (t # ts)
       \<lparr>copied = c, copied_list = cl, missing = m, assets = a\<rparr>)) = a ++ W"
      by (simp add: copy_target_def None W)
    then show ?thesis by blast
  next
    case (Some r)
    obtain tr video_id where r: "r = (tr, video_id)" by (cases r)
    show ?thesis
    proof (cases "videos (video_id @ ''.mp4'')")
      case None
      have "\<forall>c cl m a. assets (loop_state (copy_loop idx videos cw (t # ts)
         \<lparr>copied = c, copied_list = cl, missing = m, assets = a\<rparr>)) = a ++ W"
        by (simp add: copy_target_def Some r None W)
      then show ?thesis by blast
    next
      case (Some content)
      note s = Some
      show ?thesis
      proof (cases content)
        case None
        have "\<forall>c cl m a. assets (loop_state (copy_loop idx videos cw (t # ts)
           \<lparr>copied = c, copied_list = cl, missing = m, assets = a\<rparr>)) = a ++ Map.empty"
          by (simp add: copy_target_def \<open>resolve idx t = Some r\<close> r s None loop_state_def)
        then show ?thesis by blast
      next
        case (Some bytes)
        note b = s [unfolded Some]
        show ?thesis
        proof (cases "cw (dst_name_of t)")
          case True
          have "\<forall>c cl m a. assets (loop_state (copy_loop idx videos cw (t # ts)
             \<lparr>copied = c, copied_list = cl, missing = m, assets = a\<rparr>))
               = a ++ ([dst_name_of t \<mapsto> Bytes bytes] ++ W)"
            by (simp add: copy_target_def \<open>resolve idx t = Some r\<close> r b True W)
          then show ?thesis by blast
        next
          case False
          have "\<forall>c cl m a. assets (loop_state (copy_loop idx videos cw (t # ts)
             \<lparr>copied = c, copied_list = cl, missing = m, assets = a\<rparr>)) = a ++ Map.empty"
            by (simp add: copy_target_def \<open>resolve idx t = Some r\<close> r b False loop_state_def)
          then show ?thesis by blast
        qed
      qed
    qed
  qed
qed

lemma videos_copy_loop_writes:
  "\<exists>W. \<forall>c m a.
     videos_assets (loop_state (videos_copy_loop available root cw ts
       \<lparr>videos_copied = c, videos_missing = m, videos_assets = a\<rparr>)) = a ++ W"
proof (induction ts)
  case Nil
  have "\<forall>c m a. videos_assets (loop_state (videos_copy_loop available root cw []
       \<lparr>videos_copied = c, videos_missing = m, videos_assets = a\<rparr>)) = a ++ Map.empty"
    by (simp add: loop_state_def)
  then show ?case by blast
next
  case (Cons t ts)
  then obtain W where W: "\<And>c m a.
     videos_assets (loop_state (videos_copy_loop available root cw ts
       \<lparr>videos_copied = c, videos_missing = m, videos_assets = a\<rparr>)) = a ++ W"
    by blast
  show ?case
  proof (cases "videos_resolve available t")
    case None
    have "\<forall>c m a. videos_assets (loop_state (videos_copy_loop available root cw (t # ts)
       \<lparr>videos_copied = c, videos_missing = m, videos_assets = a\<rparr>)) = a ++ W"
      by (simp add: videos_copy_target_def None W)
    then show ?thesis by blast
  next
    case (Some r)
    obtain tr src where r: "r = (tr, src)" by (cases r)
    show ?thesis
    proof (cases "read_file root src")
      case None
      have "\<forall>c m a. videos_assets (loop_state (videos_copy_loop available root cw (t # ts)
         \<lparr>videos_copied = c, videos_missing = m, videos_assets = a\<rparr>)) = a ++ Map.empty"
        by (simp add: videos_copy_target_def Some r None loop_state_def)
      then show ?thesis by blast
    next
      case (Some bytes)
      note b = Some
      show ?thesis
      proof (cases "cw (out_name_of t)")
        case True
        have "\<forall>c m a. videos_assets (loop_state (videos_copy_loop available root cw (t # ts)
           \<lparr>videos_copied = c, videos_missing = m, videos_assets = a\<rparr>))
             = a ++ ([out_name_of t \<mapsto> Bytes bytes] ++ W)"
          by (simp add: videos_copy_target_def \<open>videos_resolve available t = Some r\<close> r b True W)
        then show ?thesis by blast
      next
        case False
        have "\<forall>c m a. videos_assets (loop_state (videos_copy_loop available root cw (t # ts)
           \<lparr>videos_copied = c, videos_missing = m, videos_assets = a\<rparr>)) = a ++ Map.empty"
          by (simp add: videos_copy_target_def \<open>videos_resolve available t = Some r\<close> r b False
              loop_state_def)
        then show ?thesis by blast
      qed
    qed
  qed
qed

lemma map_add_twice: "m ++ n ++ n = m ++ n"
  by (rule ext) (simp add: map_add_def split: option.splits)

text \<open>
  C9. The copy step is idempotent in both scripts: run again on the output folder it
  left, with the same targets, index and source files, it leaves the same files with the
  same contents.
\<close>

theorem copy_step_idempotent:
  "assets (loop_state (copy_loop idx videos cw ts
      (init_state (assets (loop_state (copy_loop idx videos cw ts (init_state a)))))))
     = assets (loop_state (copy_loop idx videos cw ts (init_state a)))
   \<and> videos_assets (loop_state (videos_copy_loop available root cw gs
      (videos_init_state
         (videos_assets (loop_state (videos_copy_loop available root cw gs (videos_init_state b)))))))
     = videos_assets (loop_state (videos_copy_loop available root cw gs (videos_init_state b)))"
proof -
  obtain W where W: "\<And>a. assets (loop_state (copy_loop idx videos cw ts (init_state a))) = a ++ W"
    using copy_loop_writes [of idx videos cw ts] unfolding init_state_def by blast
  obtain V where V: "\<And>b. videos_assets (loop_state
      (videos_copy_loop available root cw gs (videos_init_state b))) = b ++ V"
    using videos_copy_loop_writes [of available root cw gs] unfolding videos_init_state_def by blast
  show ?thesis by (simp add: W V map_add_twice)
qed


theorem copied_missing_partition_witness:
  "copy_loop [(''hello'', ''v1'')] (map_of [(''v1.mp4'', Some ''bytes1'')]) (\<lambda>n. True)
     (sorted_list_of_set (set [''xyz'', ''hello''])) (init_state Map.empty)
     = Inr \<lparr>copied = 1, copied_list = [''hello''], missing = [''xyz''],
            assets = [''hello.mp4'' \<mapsto> Bytes ''bytes1'']\<rparr>
   \<and> set [''hello''] \<union> set [''xyz''] = set [''xyz'', ''hello'']
   \<and> manifest_count (manifest_of \<lparr>copied = 1, copied_list = [''hello''], missing = [''xyz''],
            assets = [''hello.mp4'' \<mapsto> Bytes ''bytes1'']\<rparr>) = 1"
  using copied_missing_partition [of "[(''hello'', ''v1'')]" "map_of [(''v1.mp4'', Some ''bytes1'')]"
      "\<lambda>n. True" "[''xyz'', ''hello'']" Map.empty
      "\<lparr>copied = 1, copied_list = [''hello''], missing = [''xyz''],
            assets = [''hello.mp4'' \<mapsto> Bytes ''bytes1'']\<rparr>"]
  by (simp add: sorted_list_of_set_sort_remdups copy_target_def resolve_def exact_match_def
      match_without_spaces_def partial_match_def truthy_def str_defs init_state_def
      dst_name_of_def manifest_of_def)

theorem copy_step_idempotent_witness:
  "assets (loop_state (copy_loop [(''hello'', ''v1'')] (map_of [(''v1.mp4'', Some ''bytes1'')])
      (\<lambda>n. True) [''hello'', ''xyz''] (init_state [''hello.mp4'' \<mapsto> Bytes ''old''])))
     = [''hello.mp4'' \<mapsto> Bytes ''bytes1'']
   \<and> assets (loop_state (copy_loop [(''hello'', ''v1'')] (map_of [(''v1.mp4'', Some ''bytes1'')])
      (\<lambda>n. True) [''hello'', ''xyz''] (init_state [''hello.mp4'' \<mapsto> Bytes ''bytes1''])))
     = [''hello.mp4'' \<mapsto> Bytes ''bytes1'']"
  using copy_step_idempotent [of "[(''hello'', ''v1'')]" "map_of [(''v1.mp4'', Some ''bytes1'')]"
      "\<lambda>n. True" "[''hello'', ''xyz'']" "[''hello.mp4'' \<mapsto> Bytes ''old'']"]
  by (simp add: copy_target_def resolve_def exact_match_def
      match_without_spaces_def partial_match_def truthy_def str_defs init_state_def
      dst_name_of_def loop_state_def)

section \<open>Well-formed indexes\<close>

lemma split_last_nonempty: "split_last c s = Some (pre, post) \<Longrightarrow> s \<noteq> []"
  by (cases s) auto

lemma stem_nonempty: "name \<noteq> [] \<Longrightarrow> stem name \<noteq> []"
  by (auto simp: stem_def split: option.splits)

lemma available_videos_nonempty: "[] \<notin> available_videos_of videos"
proof
  assume "[] \<in> available_videos_of videos"
  then obtain name where "ends_with ''.mp4'' name" and "stem name = []"
    by (auto simp: available_videos_of_def)
  then show False
    using stem_nonempty [of name] by (cases name) (auto simp: ends_with_def)
qed

lemma first_available_in: "first_available insts av = Inr (Some v) \<Longrightarrow> v \<in> av"
  by (induction insts)
    (auto simp: in_available_def split: sum.splits option.splits json.splits if_splits)

lemma update_values: "snd ` set (AList.update k v al) \<subseteq> insert v (snd ` set al)"
  by (induction al) auto

text \<open>An entry the builder gets past leaves the index as it was or updates one key.\<close>

lemma build_gloss_to_video_step:
  assumes "build_gloss_to_video (e # es) av acc = Inr idx"
  shows "\<exists>gloss instances r.
           first_available instances av = Inr r
           \<and> build_gloss_to_video es av
                (case r of None \<Rightarrow> acc | Some video_id \<Rightarrow> AList.update gloss video_id acc)
               = Inr idx"
proof -
  from assms obtain gloss instances r where
    f: "first_available instances av = Inr r" and
    b: "(case r of
           None \<Rightarrow> build_gloss_to_video es av acc
         | Some video_id \<Rightarrow> build_gloss_to_video es av (AList.update gloss video_id acc))
        = Inr idx"
    by (auto split: sum.splits)
  show ?thesis
  proof (cases r)
    case None
    then show ?thesis using f b by force
  next
    case (Some v)
    then show ?thesis using f b by force
  qed
qed

lemma build_gloss_to_video_values:
  assumes "[] \<notin> av" and "[] \<notin> snd ` set acc"
    and "build_gloss_to_video wlasl_data av acc = Inr idx"
  shows "[] \<notin> snd ` set idx"
  using assms(2,3)
proof (induction wlasl_data arbitrary: acc)
  case Nil
  then show ?case by simp
next
  case (Cons e es)
  from build_gloss_to_video_step [OF Cons.prems(2)] obtain gloss instances r where
    f: "first_available instances av = Inr r" and
    b: "build_gloss_to_video es av
          (case r of None \<Rightarrow> acc | Some video_id \<Rightarrow> AList.update gloss video_id acc) = Inr idx"
    by blast
  have "[] \<notin> snd ` set (case r of None \<Rightarrow> acc | Some video_id \<Rightarrow> AList.update gloss video_id acc)"
  proof (cases r)
    case None
    then show ?thesis using Cons.prems(1) by simp
  next
    case (Some v)
    then have "v \<noteq> []" using f first_available_in assms(1) by metis
    then show ?thesis
      using Some Cons.prems(1) update_values [of gloss v acc] by auto
  qed
  then show ?case using Cons.IH b by blast
qed

lemma build_gloss_to_video_distinct:
  assumes "distinct (map fst acc)" and "build_gloss_to_video wlasl_data av acc = Inr idx"
  shows "distinct (map fst idx)"
  using assms
proof (induction wlasl_data arbitrary: acc)
  case Nil
  then show ?case by simp
next
  case (Cons e es)
  from build_gloss_to_video_step [OF Cons.prems(2)] obtain gloss r where
    b: "build_gloss_to_video es av
          (case r of None \<Rightarrow> acc | Some video_id \<Rightarrow> AList.update gloss video_id acc) = Inr idx"
    by blast
  have "distinct (map fst (case r of None \<Rightarrow> acc | Some video_id \<Rightarrow> AList.update gloss video_id acc))"
    using Cons.prems(1) by (cases r) (simp_all add: AList.distinct_update)
  then show ?case using Cons.IH b by blast
qed

text \<open>
  The index \<open>import_wlasl.py\<close> builds has distinct keys and no empty video id, so the
  truthiness tests of the copy loop only ask whether a key was found.
\<close>

lemma built_index_wf:
  assumes "build_gloss_to_video wlasl_data (available_videos_of videos) [] = Inr idx"
  shows "distinct (map fst idx) \<and> [] \<notin> snd ` set idx"
  using build_gloss_to_video_distinct [OF _ assms]
    build_gloss_to_video_values [OF available_videos_nonempty _ assms]
  by simp

lemma get_video_files_distinct:
  "distinct (map fst gv) \<Longrightarrow> distinct (map fst (get_video_files items gv))"
  by (induction items gv rule: get_video_files.induct)
    (auto simp: Let_def AList.distinct_update split: node.splits list.splits)

section \<open>The runs\<close>

lemma ends_with_mp4_append: "ends_with ''.mp4'' (x @ ''.mp4'')"
  by (simp add: ends_with_def)

lemma copy_target_other:
  assumes "copy_target idx videos cw t st = Inr st'" and "\<not> ends_with ''.mp4'' n"
  shows "assets st' n = assets st n"
  using assms ends_with_mp4_append [of "replace_char CHR '' '' CHR ''_'' (lower t)"]
  by (auto simp: copy_target_def dst_name_of_def Let_def split: option.splits if_splits)

lemma copy_loop_other:
  assumes "\<not> ends_with ''.mp4'' n"
  shows "assets (loop_state (copy_loop idx videos cw ts st)) n = assets st n"
proof (induction ts arbitrary: st)
  case Nil
  then show ?case by (simp add: loop_state_def)
next
  case (Cons t ts)
  show ?case
  proof (cases "copy_target idx videos cw t st")
    case (Inl e)
    then show ?thesis by (simp add: loop_state_def)
  next
    case (Inr st')
    then show ?thesis
      using Cons.IH [of st'] copy_target_other [OF Inr assms] by simp
  qed
qed

lemma videos_copy_target_other:
  assumes "videos_copy_target available root cw g st = Inr st'" and "\<not> ends_with ''.mp4'' n"
  shows "videos_assets st' n = videos_assets st n"
  using assms ends_with_mp4_append [of "replace_char CHR '' '' CHR ''_'' (lower g)"]
  by (auto simp: videos_copy_target_def out_name_of_def Let_def split: option.splits if_splits)

lemma videos_copy_loop_other:
  assumes "\<not> ends_with ''.mp4'' n"
  shows "videos_assets (loop_state (videos_copy_loop available root cw gs st)) n
           = videos_assets st n"
proof (induction gs arbitrary: st)
  case Nil
  then show ?case by (simp add: loop_state_def)
next
  case (Cons g gs)
  show ?case
  proof (cases "videos_copy_target available root cw g st")
    case (Inl e)
    then show ?thesis by (simp add: loop_state_def)
  next
    case (Inr st')
    then show ?thesis
      using Cons.IH [of st'] videos_copy_target_other [OF Inr assms] by simp
  qed
qed




text \<open>The run of \<open>import_wlasl.py\<close> ends without an error exactly when no step raised.\<close>

lemma import_wlasl_main_None:
  "import_wlasl_main ts w = (None, out) \<longleftrightarrow>
     can_mkdir w
     \<and> (\<exists>wlasl_data entries gloss_to_video st.
          json_file w = Some wlasl_data
          \<and> py_items wlasl_data = Inr entries
          \<and> build_gloss_to_video entries (available_videos_of (videos_dir w)) []
              = Inr gloss_to_video
          \<and> copy_loop gloss_to_video (map_of (videos_dir w)) (can_write_asset w)
               (sorted_list_of_set (set ts)) (init_state (avatar_assets w)) = Inr st
          \<and> can_write_asset w ''manifest.json''
          \<and> can_write_asset w ''_all_available_glosses.txt''
          \<and> out = (assets st)
                 (''manifest.json'' \<mapsto> Json (manifest_of st),
                  ''_all_available_glosses.txt'' \<mapsto> gloss_listing (map fst gloss_to_video)))"
  by (auto simp: import_wlasl_main_def Let_def split: option.splits sum.splits)

lemma import_wlasl_videos_main_None:
  "import_wlasl_videos_main gs v = (None, out) \<longleftrightarrow>
     2 \<le> length (argv v) \<and> can_mkdir v
     \<and> (\<exists>wlasl_path items st.
          tree_at v (argv v ! 1) = Some wlasl_path
          \<and> find_wlasl_structure wlasl_path = Dir items
          \<and> videos_copy_loop (get_video_files items []) (Dir items) (can_write_asset v) gs
               (videos_init_state (avatar_assets v)) = Inr st
          \<and> can_write_asset v ''_available_glosses.txt''
          \<and> out = (videos_assets st)
                 (''_available_glosses.txt'' \<mapsto> gloss_listing (map fst (get_video_files items []))))"
  by (auto simp: import_wlasl_videos_main_def Let_def split: option.splits sum.splits node.splits)

subsection \<open>The report files\<close>

text \<open>The definitions a run on concrete inputs unfolds.\<close>

lemmas eval_defs = str_defs import_wlasl_main_def import_wlasl_videos_main_def
  available_videos_of_def stem_def ends_with_def get_or_def copy_target_def resolve_def
  exact_match_def match_without_spaces_def partial_match_def truthy_def init_state_def
  dst_name_of_def manifest_of_def gloss_listing_def sorted_list_of_set_sort_remdups
  find_wlasl_structure_def child_def has_video_suffix_def path_suffix_def flat_gloss_def
  folder_gloss_def rsplit1_head_def videos_resolve_def videos_copy_target_def
  videos_init_state_def out_name_of_def read_file_def exit_status_def Let_def
  py_items_def dict_get_def str_lower_def in_available_def

text \<open>
  \<open>import_wlasl_videos.py\<close> writes no manifest: a run that ends without error leaves
  the copied video and the listing, and no \<open>manifest.json\<close>.
\<close>

theorem videos_reporter_counterexample:
  "import_wlasl_videos_main [''hello'', ''xyz'']
     \<lparr>can_mkdir = True, can_write_asset = (\<lambda>n. True), avatar_assets = Map.empty,
      argv = [''import_wlasl_videos.py'', ''/data''],
      tree_at = (\<lambda>p. if p = ''/data''
                     then Some (Dir [(''videos'', Dir [(''hello_1.mp4'', File ''bytes1'')])])
                     else None)\<rparr>
   = (None, [''hello.mp4'' \<mapsto> Bytes ''bytes1'',
             ''_available_glosses.txt'' \<mapsto> Bytes (''hello'' @ [CHR 0x0A])])
   \<and> [''hello.mp4'' \<mapsto> Bytes ''bytes1'',
       ''_available_glosses.txt'' \<mapsto> Bytes (''hello'' @ [CHR 0x0A])] ''manifest.json'' = None"
  by (simp add: eval_defs)

text \<open>
  C6 (amended). After the copy pass, a run of \<open>import_wlasl.py\<close> that ends without error
  has written \<open>manifest.json\<close>, holding the source tag \<open>WLASL v0.3\<close>, the counter of
  copies, the sorted \<open>copied_list\<close> and the sorted \<open>missing\<close> list of the loop, and
  \<open>_all_available_glosses.txt\<close>, one line per key of the index, sorted. A run of
  \<open>import_wlasl_videos.py\<close> that ends without error has written the listing
  \<open>_available_glosses.txt\<close> of its index only: every other file of the output folder
  that is not an \<open>.mp4\<close> file is as it was.
\<close>

theorem reporter_artifacts:
  "(import_wlasl_main ts w = (None, out) \<longrightarrow>
      (\<exists>wlasl_data entries gloss_to_video st.
         json_file w = Some wlasl_data
         \<and> py_items wlasl_data = Inr entries
         \<and> build_gloss_to_video entries (available_videos_of (videos_dir w)) []
             = Inr gloss_to_video
         \<and> copy_loop gloss_to_video (map_of (videos_dir w)) (can_write_asset w)
              (sorted_list_of_set (set ts)) (init_state (avatar_assets w)) = Inr st
         \<and> out ''manifest.json'' =
             Some (Json \<lparr>manifest_source = ''WLASL v0.3'', manifest_count = copied st,
                         manifest_glosses = sort (copied_list st),
                         manifest_missing = sort (missing st)\<rparr>)
         \<and> out ''_all_available_glosses.txt'' =
             Some (Bytes (concat (map (\<lambda>gloss. gloss @ [CHR 0x0A])
               (sort (map fst gloss_to_video)))))))
   \<and> (import_wlasl_videos_main gs v = (None, out') \<longrightarrow>
      (\<exists>wlasl_path items.
         tree_at v (argv v ! 1) = Some wlasl_path
         \<and> find_wlasl_structure wlasl_path = Dir items
         \<and> out' ''_available_glosses.txt'' =
             Some (Bytes (concat (map (\<lambda>gloss. gloss @ [CHR 0x0A])
               (sort (map fst (get_video_files items []))))))
         \<and> (\<forall>n. \<not> ends_with ''.mp4'' n \<and> n \<noteq> ''_available_glosses.txt''
               \<longrightarrow> out' n = avatar_assets v n)))"
proof (intro conjI impI)
  assume "import_wlasl_main ts w = (None, out)"
  then show "\<exists>wlasl_data entries gloss_to_video st.
         json_file w = Some wlasl_data
         \<and> py_items wlasl_data = Inr entries
         \<and> build_gloss_to_video entries (available_videos_of (videos_dir w)) []
             = Inr gloss_to_video
         \<and> copy_loop gloss_to_video (map_of (videos_dir w)) (can_write_asset w)
              (sorted_list_of_set (set ts)) (init_state (avatar_assets w)) = Inr st
         \<and> out ''manifest.json'' =
             Some (Json \<lparr>manifest_source = ''WLASL v0.3'', manifest_count = copied st,
                         manifest_glosses = sort (copied_list st),
                         manifest_missing = sort (missing st)\<rparr>)
         \<and> out ''_all_available_glosses.txt'' =
             Some (Bytes (concat (map (\<lambda>gloss. gloss @ [CHR 0x0A])
               (sort (map fst gloss_to_video)))))"
    unfolding import_wlasl_main_None
    by (auto simp: manifest_of_def gloss_listing_def)
next
  assume "import_wlasl_videos_main gs v = (None, out')"
  then obtain wlasl_path items st where
    p: "tree_at v (argv v ! 1) = Some wlasl_path" "find_wlasl_structure wlasl_path = Dir items"
    and l: "videos_copy_loop (get_video_files items []) (Dir items) (can_write_asset v) gs
               (videos_init_state (avatar_assets v)) = Inr st"
    and o: "out' = (videos_assets st)
                 (''_available_glosses.txt'' \<mapsto> gloss_listing (map fst (get_video_files items [])))"
    unfolding import_wlasl_videos_main_None by blast
  have "videos_assets st n = avatar_assets v n" if "\<not> ends_with ''.mp4'' n" for n
    using videos_copy_loop_other [OF that, of "get_video_files items []" "Dir items"
        "can_write_asset v" gs "videos_init_state (avatar_assets v)"]
    unfolding l by (simp add: loop_state_def videos_init_state_def)
  then show "\<exists>wlasl_path items.
         tree_at v (argv v ! 1) = Some wlasl_path
         \<and> find_wlasl_structure wlasl_path = Dir items
         \<and> out' ''_available_glosses.txt'' =
             Some (Bytes (concat (map (\<lambda>gloss. gloss @ [CHR 0x0A])
               (sort (map fst (get_video_files items []))))))
         \<and> (\<forall>n. \<not> ends_with ''.mp4'' n \<and> n \<noteq> ''_available_glosses.txt''
               \<longrightarrow> out' n = avatar_assets v n)"
    using p o by (auto simp: gloss_listing_def)
qed

theorem reporter_artifacts_witness:
  "import_wlasl_main [''hello'', ''thank you'']
     \<lparr>can_mkdir = True, can_write_asset = (\<lambda>n. True), avatar_assets = Map.empty,
      json_file = Some (JArray [JObject [(''gloss'', JString ''Hello''),
          (''instances'', JArray [JObject [(''video_id'', JString ''00001'')],
            JObject [(''video_id'', JString ''00002'')]])],
                        JObject [(''gloss'', JString ''thank you''),
                            (''instances'', JArray [JObject [(''video_id'', JString ''00003'')]])]]),
      videos_dir = [(''00002.mp4'', Some ''bytes2'')]\<rparr>
   = (None, [''hello.mp4'' \<mapsto> Bytes ''bytes2'',
             ''manifest.json'' \<mapsto>
               Json \<lparr>manifest_source = ''WLASL v0.3'', manifest_count = 1,
                     manifest_glosses = [''hello''], manifest_missing = [''thank you'']\<rparr>,
             ''_all_available_glosses.txt'' \<mapsto> Bytes (''hello'' @ [CHR 0x0A])])
   \<and> import_wlasl_videos_main [''hello'']
     \<lparr>can_mkdir = True, can_write_asset = (\<lambda>n. True),
      avatar_assets = [''manifest.json'' \<mapsto> Bytes ''old''],
      argv = [''import_wlasl_videos.py'', ''/data''],
      tree_at = (\<lambda>p. if p = ''/data''
                     then Some (Dir [(''hello_1.mp4'', File ''bytes1'')])
                     else None)\<rparr>
   = (None, [''manifest.json'' \<mapsto> Bytes ''old'', ''hello.mp4'' \<mapsto> Bytes ''bytes1'',
             ''_available_glosses.txt'' \<mapsto> Bytes (''hello'' @ [CHR 0x0A])])"
  using reporter_artifacts [of "[''hello'', ''thank you'']"
     "\<lparr>can_mkdir = True, can_write_asset = (\<lambda>n. True), avatar_assets = Map.empty,
      json_file = Some (JArray [JObject [(''gloss'', JString ''Hello''),
          (''instances'', JArray [JObject [(''video_id'', JString ''00001'')],
            JObject [(''video_id'', JString ''00002'')]])],
                        JObject [(''gloss'', JString ''thank you''),
                            (''instances'', JArray [JObject [(''video_id'', JString ''00003'')]])]]),
      videos_dir = [(''00002.mp4'', Some ''bytes2'')]\<rparr>"
     "[''hello.mp4'' \<mapsto> Bytes ''bytes2'',
             ''manifest.json'' \<mapsto>
               Json \<lparr>manifest_source = ''WLASL v0.3'', manifest_count = 1,
                     manifest_glosses = [''hello''], manifest_missing = [''thank you'']\<rparr>,
             ''_all_available_glosses.txt'' \<mapsto> Bytes (''hello'' @ [CHR 0x0A])]"
     "[''hello'']"
     "\<lparr>can_mkdir = True, can_write_asset = (\<lambda>n. True),
      avatar_assets = [''manifest.json'' \<mapsto> Bytes ''old''],
      argv = [''import_wlasl_videos.py'', ''/data''],
      tree_at = (\<lambda>p. if p = ''/data''
                     then Some (Dir [(''hello_1.mp4'', File ''bytes1'')])
                     else None)\<rparr>"
     "[''manifest.json'' \<mapsto> Bytes ''old'', ''hello.mp4'' \<mapsto> Bytes ''bytes1'',
             ''_available_glosses.txt'' \<mapsto> Bytes (''hello'' @ [CHR 0x0A])]"]
  by (simp add: eval_defs)

subsection \<open>Failing writes and the exit status\<close>

text \<open>
  The writes of the reports are not guarded. With the same inputs, the run exits with
  status 0 when \<open>manifest.json\<close> can be written and with status 1 when it cannot,
  although the copy loop had completed and \<open>hello.mp4\<close> is in place.
\<close>

theorem manifest_write_counterexample:
  "exit_status (fst (import_wlasl_main [''hello'']
     \<lparr>can_mkdir = True, can_write_asset = (\<lambda>n. True), avatar_assets = Map.empty,
      json_file = Some (JArray [JObject [(''gloss'', JString ''hello''),
          (''instances'', JArray [JObject [(''video_id'', JString ''00001'')]])]]),
      videos_dir = [(''00001.mp4'', Some ''bytes1'')]\<rparr>)) = 0
   \<and> import_wlasl_main [''hello'']
     \<lparr>can_mkdir = True, can_write_asset = (\<lambda>n. n \<noteq> ''manifest.json''),
      avatar_assets = Map.empty,
      json_file = Some (JArray [JObject [(''gloss'', JString ''hello''),
          (''instances'', JArray [JObject [(''video_id'', JString ''00001'')]])]]),
      videos_dir = [(''00001.mp4'', Some ''bytes1'')]\<rparr>
     = (Some (WriteError ''manifest.json''), [''hello.mp4'' \<mapsto> Bytes ''bytes1''])
   \<and> exit_status (Some (WriteError ''manifest.json'')) = 1"
  by (simp add: eval_defs)

text \<open>
  C7 (amended). The report files are written without any handler: when the copy loop has
  completed and the manifest or the listing (\<open>import_wlasl.py\<close>), or the listing
  (\<open>import_wlasl_videos.py\<close>), cannot be written, the exception ends the run with exit
  status 1. The videos the copy loop wrote stay in the output folder.
\<close>

theorem report_write_failure:
  "(can_mkdir w \<and> json_file w = Some wlasl_data \<and> py_items wlasl_data = Inr entries
      \<and> build_gloss_to_video entries (available_videos_of (videos_dir w)) []
          = Inr gloss_to_video
      \<and> copy_loop gloss_to_video (map_of (videos_dir w)) (can_write_asset w)
           (sorted_list_of_set (set ts)) (init_state (avatar_assets w)) = Inr st
      \<and> (\<not> can_write_asset w ''manifest.json''
          \<or> \<not> can_write_asset w ''_all_available_glosses.txt'')
    \<longrightarrow> exit_status (fst (import_wlasl_main ts w)) = 1
        \<and> (\<forall>n. ends_with ''.mp4'' n \<longrightarrow> snd (import_wlasl_main ts w) n = assets st n))
   \<and> (2 \<le> length (argv v) \<and> tree_at v (argv v ! 1) = Some wlasl_path \<and> can_mkdir v
      \<and> find_wlasl_structure wlasl_path = Dir items
      \<and> videos_copy_loop (get_video_files items []) (Dir items) (can_write_asset v) gs
           (videos_init_state (avatar_assets v)) = Inr st'
      \<and> \<not> can_write_asset v ''_available_glosses.txt''
    \<longrightarrow> exit_status (fst (import_wlasl_videos_main gs v)) = 1
        \<and> snd (import_wlasl_videos_main gs v) = videos_assets st')"
proof -
  have m: "\<not> ends_with ''.mp4'' ''manifest.json''"
    by (simp add: ends_with_def)
  show ?thesis
    using m by (auto simp: import_wlasl_main_def import_wlasl_videos_main_def Let_def
        exit_status_def)
qed

theorem report_write_failure_witness:
  "exit_status (fst (import_wlasl_main [''hello'']
     \<lparr>can_mkdir = True, can_write_asset = (\<lambda>n. n \<noteq> ''_all_available_glosses.txt''),
      avatar_assets = Map.empty,
      json_file = Some (JArray [JObject [(''gloss'', JString ''hello''),
          (''instances'', JArray [JObject [(''video_id'', JString ''00001'')]])]]),
      videos_dir = [(''00001.mp4'', Some ''bytes1'')]\<rparr>)) = 1
   \<and> snd (import_wlasl_main [''hello'']
     \<lparr>can_mkdir = True, can_write_asset = (\<lambda>n. n \<noteq> ''_all_available_glosses.txt''),
      avatar_assets = Map.empty,
      json_file = Some (JArray [JObject [(''gloss'', JString ''hello''),
          (''instances'', JArray [JObject [(''video_id'', JString ''00001'')]])]]),
      videos_dir = [(''00001.mp4'', Some ''bytes1'')]\<rparr>) ''hello.mp4'' = Some (Bytes ''bytes1'')
   \<and> import_wlasl_videos_main [''hello'']
     \<lparr>can_mkdir = True, can_write_asset = (\<lambda>n. n \<noteq> ''_available_glosses.txt''),
      avatar_assets = Map.empty,
      argv = [''import_wlasl_videos.py'', ''/data''],
      tree_at = (\<lambda>p. if p = ''/data''
                     then Some (Dir [(''hello_1.mp4'', File ''bytes1'')])
                     else None)\<rparr>
     = (Some (WriteError ''_available_glosses.txt''), [''hello.mp4'' \<mapsto> Bytes ''bytes1''])"
  using report_write_failure [where w =
     "\<lparr>can_mkdir = True, can_write_asset = (\<lambda>n. n \<noteq> ''_all_available_glosses.txt''),
      avatar_assets = Map.empty,
      json_file = Some (JArray [JObject [(''gloss'', JString ''hello''),
          (''instances'', JArray [JObject [(''video_id'', JString ''00001'')]])]]),
      videos_dir = [(''00001.mp4'', Some ''bytes1'')]\<rparr>"
     and wlasl_data =
     "JArray [JObject [(''gloss'', JString ''hello''),
         (''instances'', JArray [JObject [(''video_id'', JString ''00001'')]])]]"
     and entries =
     "[JObject [(''gloss'', JString ''hello''),
         (''instances'', JArray [JObject [(''video_id'', JString ''00001'')]])]]"
     and gloss_to_video = "[(''hello'', ''00001'')]"
     and ts = "[''hello'']"
     and st = "\<lparr>copied = 1, copied_list = [''hello''], missing = [],
       assets = [''hello.mp4'' \<mapsto> Bytes ''bytes1'']\<rparr>"
     and v = "\<lparr>can_mkdir = True, can_write_asset = (\<lambda>n. n \<noteq> ''_available_glosses.txt''),
      avatar_assets = Map.empty,
      argv = [''import_wlasl_videos.py'', ''/data''],
      tree_at = (\<lambda>p. if p = ''/data''
                     then Some (Dir [(''hello_1.mp4'', File ''bytes1'')])
                     else None)\<rparr>"
     and wlasl_path = "Dir [(''hello_1.mp4'', File ''bytes1'')]"
     and items = "[(''hello_1.mp4'', File ''bytes1'')]"
     and gs = "[''hello'']"
     and st' = "\<lparr>videos_copied = 1, videos_missing = [],
       videos_assets = [''hello.mp4'' \<mapsto> Bytes ''bytes1'']\<rparr>"]
  by (simp add: eval_defs)




end
